theory Spec2Isabelle
  imports Main
begin

section \<open>Data model\<close>

text \<open>
  The effects of \<^verbatim>\<open>packages/block-editor/src/store/effects.js\<close> read the store
  through selectors, ask the block registry for merge and transform behaviour, and hand
  actions back to the store. The selectors, the action creators and the registry live in
  other modules; here they are the fields of an environment, so every statement about an
  effect holds for each implementation of them.
\<close>

text \<open>
  A client id as a selector returns it: a string, \<^verbatim>\<open>null\<close> or \<^verbatim>\<open>undefined\<close>.
  \<open>truthy\<close> is JavaScript's truthiness, the test behind \<^verbatim>\<open>||\<close>: the empty string is
  falsy, as \<^verbatim>\<open>null\<close> and \<^verbatim>\<open>undefined\<close> are. Strict inequality \<^verbatim>\<open>!==\<close> on these values
  is inequality of the datatype.
\<close>

datatype clientRef = Undefined | Null | ClientId string

fun truthy :: "clientRef \<Rightarrow> bool" where
  "truthy (ClientId c) = (c \<noteq> [])"
| "truthy Null = False"
| "truthy Undefined = False"

definition js_or :: "clientRef \<Rightarrow> clientRef \<Rightarrow> clientRef" where
  "js_or a b = (if truthy a then a else b)"

text \<open>A block: client id, type name, attributes by key, and the nested blocks.\<close>

datatype 'v block =
  Block (clientId: string) (name: string) (attributes: "string \<Rightarrow> 'v option")
    (innerBlocks: "'v block list")

text \<open>
  A template entry is the triple \<^verbatim>\<open>[ name, attributes, innerBlocksTemplate ]\<close>. The
  template of the children is optional: \<open>None\<close> for an entry that has none, which is
  not the same as the empty template \<open>Some []\<close>.
\<close>

datatype 'v templateEntry =
  TemplateEntry (tname: string) (tattributes: "string \<Rightarrow> 'v option")
    (tinner: "'v templateEntry list option")

text \<open>
  A block type as the registry returns it; \<open>merge\<close> is \<open>None\<close> for a type that
  declares no merge function.
\<close>

record 'v blockType =
  typeName :: string
  merge :: "((string \<Rightarrow> 'v option) \<Rightarrow> (string \<Rightarrow> 'v option) \<Rightarrow> (string \<Rightarrow> 'v option)) option"

text \<open>
  The actions the effects receive and produce. \<open>SelectBlock\<close> carries the optional
  \<^verbatim>\<open>initialPosition\<close> argument of \<^verbatim>\<open>selectBlock\<close>: \<open>None\<close> when the call leaves it out.
\<close>

datatype 'v action =
  MergeBlocks string string
| ResetBlocks "'v block list"
| RemoveBlocks "string list" bool
| ReplaceBlocks "string list" "'v block list"
| MultiSelect string string
| SynchronizeTemplate
| SelectBlock clientRef "int option"
| SetTemplateValidity bool
| InsertDefaultBlock

definition selectBlock :: "clientRef \<Rightarrow> int option \<Rightarrow> 'v action" where
  "selectBlock c initialPosition = SelectBlock c initialPosition"

definition replaceBlocks :: "string list \<Rightarrow> 'v block list \<Rightarrow> 'v action" where
  "replaceBlocks clientIds blocks = ReplaceBlocks clientIds blocks"

definition setTemplateValidity :: "bool \<Rightarrow> 'v action" where
  "setTemplateValidity isValid = SetTemplateValidity isValid"

definition insertDefaultBlock :: "'v action" where
  "insertDefaultBlock = InsertDefaultBlock"

definition resetBlocks :: "'v block list \<Rightarrow> 'v action" where
  "resetBlocks blocks = ResetBlocks blocks"

text \<open>
  The part of the state the effects touch themselves: \<^verbatim>\<open>state.editor\<close> with its history
  \<^verbatim>\<open>past\<close> and the snapshot \<^verbatim>\<open>present\<close>. All else is read through selectors, so the state
  is a record scheme and the snapshot type is left open.
\<close>

record 'p editor =
  past :: "'p list"
  present :: 'p

record 'p state =
  editor :: "'p editor"

datatype error = TypeError

text \<open>
  The imports of the module: the selectors of \<^verbatim>\<open>./selectors\<close> and the four functions
  of \<^verbatim>\<open>@wordpress/blocks\<close>. \<open>getBlock\<close> and \<open>switchToBlockType\<close> return \<^verbatim>\<open>null\<close> as
  \<open>None\<close>, \<open>getBlockType\<close> returns \<^verbatim>\<open>undefined\<close> as \<open>None\<close>; an absent template is
  \<open>None\<close>, and a template lock is the string or \<open>None\<close> for \<^verbatim>\<open>false\<close>.
\<close>

record ('s, 'v) env =
  getBlock :: "'s \<Rightarrow> string \<Rightarrow> 'v block option"
  getBlocks :: "'s \<Rightarrow> 'v block list"
  getSelectedBlockCount :: "'s \<Rightarrow> nat"
  getBlockCount :: "'s \<Rightarrow> nat"
  getBlockRootClientId :: "'s \<Rightarrow> clientRef \<Rightarrow> clientRef"
  getPreviousBlockClientId :: "'s \<Rightarrow> clientRef \<Rightarrow> clientRef"
  getSelectedBlockClientId :: "'s \<Rightarrow> clientRef"
  getTemplateLock :: "'s \<Rightarrow> string option"
  getTemplate :: "'s \<Rightarrow> 'v templateEntry list option"
  isValidTemplate :: "'s \<Rightarrow> bool"
  getBlockType :: "string \<Rightarrow> 'v blockType option"
  doBlocksMatchTemplate :: "'v block list \<Rightarrow> 'v templateEntry list \<Rightarrow> bool"
  switchToBlockType :: "'v block \<Rightarrow> string \<Rightarrow> 'v block list option"
  synchronizeBlocksWithTemplate ::
    "'v block list \<Rightarrow> 'v templateEntry list option \<Rightarrow> 'v block list"

section \<open>The effects\<close>

subsection \<open>validateBlocksToTemplate\<close>

text \<open>
  The local constant \<^verbatim>\<open>isBlocksValidToTemplate\<close>:
  \<^verbatim>\<open>! template || templateLock !== 'all' || doBlocksMatchTemplate( action.blocks, template )\<close>.
  An array is truthy even when empty, so \<^verbatim>\<open>! template\<close> holds for the absent template only.
\<close>

definition isBlocksValidToTemplate ::
  "('s, 'v) env \<Rightarrow> 'v block list \<Rightarrow> 's \<Rightarrow> bool" where
  "isBlocksValidToTemplate e blocks s =
     (case getTemplate e s of
        None \<Rightarrow> True
      | Some template \<Rightarrow>
          getTemplateLock e s \<noteq> Some ''all'' \<or> doBlocksMatchTemplate e blocks template)"

definition validateBlocksToTemplate ::
  "('s, 'v) env \<Rightarrow> 'v block list \<Rightarrow> 's \<Rightarrow> 'v action option" where
  "validateBlocksToTemplate e blocks s =
     (if isBlocksValidToTemplate e blocks s \<noteq> isValidTemplate e s
      then Some (setTemplateValidity (isBlocksValidToTemplate e blocks s))
      else None)"

subsection \<open>selectPreviousBlock\<close>

text \<open>
  \<^verbatim>\<open>{ ...state, editor: { present: last( state.editor.past ) } }\<close>: the state with its
  editor rebuilt around one snapshot. The rebuilt editor has no \<^verbatim>\<open>past\<close> key; lodash's
  \<^verbatim>\<open>last\<close> reads a missing array as an empty one, which is how the model writes it.
\<close>

definition previousState :: "('p, 'z) state_scheme \<Rightarrow> 'p \<Rightarrow> ('p, 'z) state_scheme" where
  "previousState s snapshot = s\<lparr>editor := \<lparr>past = [], present = snapshot\<rparr>\<rparr>"

text \<open>\<^verbatim>\<open>action.clientIds[ 0 ]\<close>, which is \<^verbatim>\<open>undefined\<close> on an empty array.\<close>

definition firstRemovedBlockClientId :: "string list \<Rightarrow> clientRef" where
  "firstRemovedBlockClientId clientIds =
     (case clientIds of [] \<Rightarrow> Undefined | c # _ \<Rightarrow> ClientId c)"

text \<open>
  The client id the effect wants selected, computed in the snapshot before the removal:
  \<^verbatim>\<open>getPreviousBlockClientId( previousState, id ) || rootClientId\<close>.
\<close>

definition blockClientIdToSelect ::
  "(('p, 'z) state_scheme, 'v) env \<Rightarrow> string list \<Rightarrow> ('p, 'z) state_scheme \<Rightarrow> clientRef" where
  "blockClientIdToSelect e clientIds s =
     (let firstRemoved = firstRemovedBlockClientId clientIds;
          previous = previousState s (last (past (editor s)));
          rootClientId = getBlockRootClientId e previous firstRemoved
      in js_or (getPreviousBlockClientId e previous firstRemoved) rootClientId)"

text \<open>
  With an empty history \<^verbatim>\<open>last\<close> returns \<^verbatim>\<open>undefined\<close>, the rebuilt state has no snapshot
  for the selectors to read, and the effect ends in a \<^verbatim>\<open>TypeError\<close>.
\<close>

definition selectPreviousBlock ::
  "(('p, 'z) state_scheme, 'v) env \<Rightarrow> bool \<Rightarrow> string list \<Rightarrow> ('p, 'z) state_scheme
     \<Rightarrow> error + 'v action option" where
  "selectPreviousBlock e selectPrevious clientIds s =
     (if \<not> selectPrevious then Inr None
      else if past (editor s) = [] then Inl TypeError
      else if blockClientIdToSelect e clientIds s \<noteq> getSelectedBlockClientId e s
        then Inr (Some (selectBlock (blockClientIdToSelect e clientIds s) (Some (- 1))))
        else Inr None)"

subsection \<open>ensureDefaultBlock\<close>

definition ensureDefaultBlock :: "('s, 'v) env \<Rightarrow> 's \<Rightarrow> 'v action option" where
  "ensureDefaultBlock e s =
     (if getBlockCount e s = 0 then Some insertDefaultBlock else None)"

subsection \<open>The handlers of the registry\<close>

text \<open>
  \<^verbatim>\<open>{ ...blockA, attributes: { ...blockA.attributes, ...updatedAttributes } }\<close>: the
  receiving block with the merged attributes laid over its own.
\<close>

definition mergedBlock ::
  "'v block \<Rightarrow> (string \<Rightarrow> 'v option) \<Rightarrow> 'v block" where
  "mergedBlock blockA updatedAttributes =
     Block (clientId blockA) (name blockA) (attributes blockA ++ updatedAttributes)
       (innerBlocks blockA)"

text \<open>
  \<^verbatim>\<open>MERGE_BLOCKS\<close> dispatches by itself, from the state it read on entry; its result is
  the list of actions it dispatched, in order. Reading \<^verbatim>\<open>.name\<close> of a block that
  \<open>getBlock\<close> did not find, or \<^verbatim>\<open>.merge\<close> of a type that is not registered, throws; each
  of these reads comes before the first dispatch.
\<close>

definition MERGE_BLOCKS ::
  "('s, 'v) env \<Rightarrow> string \<Rightarrow> string \<Rightarrow> 's \<Rightarrow> error + 'v action list" where
  "MERGE_BLOCKS e firstBlockClientId secondBlockClientId s =
     (case getBlock e s firstBlockClientId of
        None \<Rightarrow> Inl TypeError
      | Some blockA \<Rightarrow>
        (case getBlockType e (name blockA) of
           None \<Rightarrow> Inl TypeError
         | Some blockType \<Rightarrow>
           (case merge blockType of
              None \<Rightarrow> Inr [selectBlock (ClientId (clientId blockA)) None]
            | Some mergeFn \<Rightarrow>
              (case getBlock e s secondBlockClientId of
                 None \<Rightarrow> Inl TypeError
               | Some blockB \<Rightarrow>
                 (case (if name blockA = name blockB then Some [blockB]
                        else switchToBlockType e blockB (name blockA)) of
                    None \<Rightarrow> Inr []
                  | Some [] \<Rightarrow> Inr []
                  | Some (candidate # remaining) \<Rightarrow>
                      Inr [selectBlock (ClientId (clientId blockA)) (Some (- 1)),
                           replaceBlocks [clientId blockA, clientId blockB]
                             (mergedBlock blockA
                                (mergeFn (attributes blockA) (attributes candidate))
                              # remaining)])))))"

text \<open>
  \<^verbatim>\<open>MULTI_SELECT\<close> announces the number of selected blocks through \<^verbatim>\<open>speak\<close> and
  returns nothing; the announcement is no action of the store.
\<close>

definition MULTI_SELECT :: "('s, 'v) env \<Rightarrow> 's \<Rightarrow> 'v action option" where
  "MULTI_SELECT e s = None"

definition SYNCHRONIZE_TEMPLATE :: "('s, 'v) env \<Rightarrow> 's \<Rightarrow> 'v action option" where
  "SYNCHRONIZE_TEMPLATE e s =
     (let blocks = getBlocks e s;
          template = getTemplate e s;
          updatedBlockList = synchronizeBlocksWithTemplate e blocks template
      in Some (resetBlocks updatedBlockList))"

text \<open>
  What a handler hands to the store: the action it returned, if any, or the actions it
  dispatched; \<open>Inl\<close> when it threw.
\<close>

definition returned :: "'a option \<Rightarrow> error + 'a list" where
  "returned r = (case r of None \<Rightarrow> Inr [] | Some a \<Rightarrow> Inr [a])"

definition returnedOrThrown :: "error + 'a option \<Rightarrow> error + 'a list" where
  "returnedOrThrown r = (case r of Inl x \<Rightarrow> Inl x | Inr v \<Rightarrow> returned v)"

text \<open>
  The default export: the handlers registered for each action type, in registration
  order. An action type with no entry has no handler.
\<close>

fun effects ::
  "(('p, 'z) state_scheme, 'v) env \<Rightarrow> 'v action
     \<Rightarrow> (('p, 'z) state_scheme \<Rightarrow> error + 'v action list) list" where
  "effects e (MergeBlocks a b) = [MERGE_BLOCKS e a b]"
| "effects e (ResetBlocks blocks) = [\<lambda>s. returned (validateBlocksToTemplate e blocks s)]"
| "effects e (RemoveBlocks clientIds selectPrevious) =
     [\<lambda>s. returnedOrThrown (selectPreviousBlock e selectPrevious clientIds s),
      \<lambda>s. returned (ensureDefaultBlock e s)]"
| "effects e (ReplaceBlocks clientIds blocks) = [\<lambda>s. returned (ensureDefaultBlock e s)]"
| "effects e (MultiSelect a b) = [\<lambda>s. returned (MULTI_SELECT e s)]"
| "effects e SynchronizeTemplate = [\<lambda>s. returned (SYNCHRONIZE_TEMPLATE e s)]"
| "effects e (SelectBlock c p) = []"
| "effects e (SetTemplateValidity v) = []"
| "effects e InsertDefaultBlock = []"

section \<open>A document store\<close>

text \<open>
  The selectors, the reducer and the template functions of \<^verbatim>\<open>@wordpress/blocks\<close> are
  not in \<^verbatim>\<open>effects.js\<close>. This section builds one store after their description, to
  run the effects on.
\<close>

text \<open>
  Modelled from the spec: the document state, "blocks: ordered sequence of Block,
  selection, isValidToTemplate: boolean, history: ordered sequence of past snapshots",
  with the template and its lock. A snapshot is the list of the top-level blocks, each
  with its children.
\<close>

record 'v docState = "'v block list state" +
  blockSelection :: clientRef
  template :: "'v templateEntry list option"
  templateLock :: "string option"
  isValid :: bool

text \<open>Modelled from the spec: the state query "get block by id", over the whole tree.\<close>

fun findBlock :: "'v block list \<Rightarrow> string \<Rightarrow> 'v block option" where
  "findBlock [] c = None"
| "findBlock (Block i n a cs # bs) c =
     (if i = c then Some (Block i n a cs)
      else case findBlock cs c of Some b \<Rightarrow> Some b | None \<Rightarrow> findBlock bs c)"

text \<open>
  Modelled from the spec: the state query "parent/root of a block". The blocks of the top
  level have the document itself as their container, whose id is the first argument.
\<close>

fun rootOf :: "string \<Rightarrow> 'v block list \<Rightarrow> string \<Rightarrow> string option" where
  "rootOf parent [] c = None"
| "rootOf parent (Block i n a cs # bs) c =
     (if i = c then Some parent
      else case rootOf i cs c of Some r \<Rightarrow> Some r | None \<Rightarrow> rootOf parent bs c)"

text \<open>
  Modelled from the spec: the state query "sibling preceding a block"; \<open>Some Null\<close> for
  a block that is first among its siblings, \<open>None\<close> for an id the document does not have.
\<close>

fun siblingBefore :: "clientRef \<Rightarrow> 'v block list \<Rightarrow> string \<Rightarrow> clientRef option" where
  "siblingBefore prev [] c = None"
| "siblingBefore prev (Block i n a cs # bs) c =
     (if i = c then Some prev
      else case siblingBefore Null cs c of
             Some r \<Rightarrow> Some r
           | None \<Rightarrow> siblingBefore (ClientId i) bs c)"

text \<open>
  Modelled from the spec: the structural match of a block list with a template, "same
  count of top-level entries, each entry's type name equal to the template's expected type
  name at that position, recursively for nested children; attribute values are not
  compared". An entry without a child template puts no constraint on the children, as an
  absent template "means no constraint".
\<close>

fun blocksMatchTemplate :: "'v block list \<Rightarrow> 'v templateEntry list \<Rightarrow> bool" where
  "blocksMatchTemplate [] [] = True"
| "blocksMatchTemplate (b # bs) (TemplateEntry tn ta None # ts) =
     (name b = tn \<and> blocksMatchTemplate bs ts)"
| "blocksMatchTemplate (b # bs) (TemplateEntry tn ta (Some ti) # ts) =
     (name b = tn \<and> blocksMatchTemplate (innerBlocks b) ti \<and> blocksMatchTemplate bs ts)"
| "blocksMatchTemplate [] (t # ts) = False"
| "blocksMatchTemplate (b # bs) [] = False"

text \<open>
  Modelled from the spec: the reconciliation of a block list with a template. A template
  "may be absent, meaning no constraint": then the block list is kept as it is
  (\<open>synchronizeAt\<close> with \<open>None\<close>). Otherwise (\<open>reconcile\<close>), "for each template entry,
  reuse the existing block at that position if its type matches, otherwise construct a
  fresh default block of the template's type; recurse into children the same way; trailing
  blocks beyond the template's length are dropped, missing template entries are created".
  The children of a reused block go against the entry's child template, and are kept when
  the entry has none; a created block has the entry's attributes, and its children are
  made from the entry's child template, none when the entry has none. A created block
  takes its id from the supply \<open>uuid\<close>, asked with the entry's position in the template
  (the path of indices from the top level).
\<close>

fun synchronizeAt ::
  "(nat list \<Rightarrow> string) \<Rightarrow> nat list \<Rightarrow> 'v block list \<Rightarrow> 'v templateEntry list option
     \<Rightarrow> 'v block list"
and reconcile ::
  "(nat list \<Rightarrow> string) \<Rightarrow> nat list \<Rightarrow> nat \<Rightarrow> 'v block list \<Rightarrow> 'v templateEntry list
     \<Rightarrow> 'v block list" where
  "synchronizeAt uuid path blocks None = blocks"
| "synchronizeAt uuid path blocks (Some entries) = reconcile uuid path 0 blocks entries"
| "reconcile uuid path i blocks [] = []"
| "reconcile uuid path i blocks (TemplateEntry tn ta ti # ts) =
     (case blocks of
        b # bs \<Rightarrow>
          (if name b = tn
           then Block (clientId b) (name b) (attributes b)
                  (synchronizeAt uuid (path @ [i]) (innerBlocks b) ti)
           else Block (uuid (path @ [i])) tn ta (synchronizeAt uuid (path @ [i]) [] ti))
          # reconcile uuid path (Suc i) bs ts
      | [] \<Rightarrow>
          Block (uuid (path @ [i])) tn ta (synchronizeAt uuid (path @ [i]) [] ti)
          # reconcile uuid path (Suc i) [] ts)"

definition synchronize ::
  "(nat list \<Rightarrow> string) \<Rightarrow> 'v block list \<Rightarrow> 'v templateEntry list option \<Rightarrow> 'v block list" where
  "synchronize uuid blocks t = synchronizeAt uuid [] blocks t"



text \<open>
  Modelled from the spec: the state query interface over the document state, "get block
  by id, list of top-level blocks, selected block id and count, block count, parent/root
  of a block, sibling preceding a block, template, template lock, current validity flag".
  The block count is the number of blocks at the root of the document. The document's own
  container has the empty string as its id; a query that finds nothing gives \<^verbatim>\<open>null\<close>.
  The block types, the transform and the id supply are those of the block registry and
  stay arguments.
\<close>

definition docEnv ::
  "(string \<Rightarrow> 'v blockType option) \<Rightarrow> ('v block \<Rightarrow> string \<Rightarrow> 'v block list option)
     \<Rightarrow> (nat list \<Rightarrow> string) \<Rightarrow> ('v docState, 'v) env" where
  "docEnv types transform uuid =
     \<lparr> getBlock = (\<lambda>s c. findBlock (present (editor s)) c),
       getBlocks = (\<lambda>s. present (editor s)),
       getSelectedBlockCount = (\<lambda>s. if truthy (blockSelection s) then 1 else 0),
       getBlockCount = (\<lambda>s. length (present (editor s))),
       getBlockRootClientId = (\<lambda>s r.
         case r of
           ClientId c \<Rightarrow>
             (case rootOf [] (present (editor s)) c of
                Some parent \<Rightarrow> ClientId parent
              | None \<Rightarrow> Null)
         | _ \<Rightarrow> Null),
       getPreviousBlockClientId = (\<lambda>s r.
         case r of
           ClientId c \<Rightarrow>
             (case siblingBefore Null (present (editor s)) c of
                Some prev \<Rightarrow> prev
              | None \<Rightarrow> Null)
         | _ \<Rightarrow> Null),
       getSelectedBlockClientId = blockSelection,
       getTemplateLock = templateLock,
       getTemplate = template,
       isValidTemplate = isValid,
       getBlockType = types,
       doBlocksMatchTemplate = blocksMatchTemplate,
       switchToBlockType = transform,
       synchronizeBlocksWithTemplate = synchronize uuid \<rparr>"

text \<open>
  Modelled from the spec: what the reducer does with an "insert default block" action,
  "a single empty block of the configured default type appended to the document", the
  snapshot before it going to the history.
\<close>

definition applyInsertDefaultBlock ::
  "string \<Rightarrow> string \<Rightarrow> 'v docState \<Rightarrow> 'v docState" where
  "applyInsertDefaultBlock defaultBlockName newId s =
     s\<lparr>editor :=
         \<lparr>past = past (editor s) @ [present (editor s)],
          present = present (editor s) @ [Block newId defaultBlockName Map.empty []]\<rparr>\<rparr>"

text \<open>
  The state once the action that \<open>ensureDefaultBlock\<close> returned, if any, has gone through
  the reducer; the only action it returns is the insertion of the default block.
\<close>

definition afterEnsureDefaultBlock ::
  "('v docState, 'v) env \<Rightarrow> string \<Rightarrow> string \<Rightarrow> 'v docState \<Rightarrow> 'v docState" where
  "afterEnsureDefaultBlock e defaultBlockName newId s =
     (case ensureDefaultBlock e s of
        Some a \<Rightarrow> applyInsertDefaultBlock defaultBlockName newId s
      | None \<Rightarrow> s)"

section \<open>An example registry and example documents\<close>

text \<open>
  A small block registry over string-valued attributes. A paragraph merges by
  concatenating the \<^verbatim>\<open>text\<close> attribute, and its merge function returns that attribute
  alone; an image has no merge function. A heading transforms to one paragraph, a quote
  to two, a spacer to none, and nothing else transforms.
\<close>

definition textOf :: "(string \<Rightarrow> string option) \<Rightarrow> string" where
  "textOf a = (case a ''text'' of Some t \<Rightarrow> t | None \<Rightarrow> [])"

definition concatText ::
  "(string \<Rightarrow> string option) \<Rightarrow> (string \<Rightarrow> string option) \<Rightarrow> (string \<Rightarrow> string option)" where
  "concatText a b = [''text'' \<mapsto> textOf a @ textOf b]"

definition exampleTypes :: "string \<Rightarrow> string blockType option" where
  "exampleTypes n =
     (if n = ''paragraph'' then Some \<lparr>typeName = ''paragraph'', merge = Some concatText\<rparr>
      else if n = ''image'' then Some \<lparr>typeName = ''image'', merge = None\<rparr>
      else if n = ''heading'' then Some \<lparr>typeName = ''heading'', merge = None\<rparr>
      else None)"

definition exampleTransform :: "string block \<Rightarrow> string \<Rightarrow> string block list option" where
  "exampleTransform b target =
     (if name b = ''heading'' \<and> target = ''paragraph''
        then Some [Block (clientId b) ''paragraph'' (attributes b) []]
      else if name b = ''quote'' \<and> target = ''paragraph''
        then Some [Block ''q1'' ''paragraph'' (attributes b) [],
                   Block ''q2'' ''paragraph'' [''text'' \<mapsto> ''cite''] []]
      else if name b = ''spacer'' \<and> target = ''paragraph'' then Some []
      else None)"

text \<open>
  The ids of the example supply: \<open>new\<close>, then for each index of the path a slash and as
  many \<open>i\<close> as the index says.
\<close>

definition exampleUuid :: "nat list \<Rightarrow> string" where
  "exampleUuid path = ''new'' @ concat (map (\<lambda>i. CHR ''/'' # replicate i CHR ''i'') path)"

definition exampleEnv :: "(string docState, string) env" where
  "exampleEnv = docEnv exampleTypes exampleTransform exampleUuid"

definition textBlock :: "string \<Rightarrow> string \<Rightarrow> string \<Rightarrow> string block" where
  "textBlock c n t = Block c n [''text'' \<mapsto> t] []"

text \<open>A state with the given history and document, nothing selected and no template.\<close>

definition document :: "'v block list list \<Rightarrow> 'v block list \<Rightarrow> 'v docState" where
  "document history blocks =
     \<lparr> editor = \<lparr>past = history, present = blocks\<rparr>, blockSelection = Null,
       template = None, templateLock = None, isValid = True \<rparr>"

text \<open>Two paragraphs, an image, a quote and a spacer; the first paragraph is aligned.\<close>

definition helloWorld :: "string docState" where
  "helloWorld =
     document []
       [textBlock ''a'' ''paragraph'' ''Hello '', textBlock ''b'' ''paragraph'' ''World'',
        Block ''c'' ''image'' Map.empty [], textBlock ''d'' ''quote'' ''said'',
        Block ''e'' ''spacer'' Map.empty [],
        Block ''f'' ''paragraph'' [''text'' \<mapsto> ''Hello '', ''align'' \<mapsto> ''left''] []]"

text \<open>The document \<open>[P1, P2, P3]\<close> after the removal of \<open>P2\<close>.\<close>

definition afterRemoval :: "string docState" where
  "afterRemoval =
     document
       [[textBlock ''p1'' ''paragraph'' ''one'', textBlock ''p2'' ''paragraph'' ''two'',
         textBlock ''p3'' ''paragraph'' ''three'']]
       [textBlock ''p1'' ''paragraph'' ''one'', textBlock ''p3'' ''paragraph'' ''three'']"

text \<open>The document \<open>[P1, P3]\<close> after the removal of \<open>P1\<close>, its first block.\<close>

definition afterFirstRemoval :: "string docState" where
  "afterFirstRemoval =
     document
       [[textBlock ''p1'' ''paragraph'' ''one'', textBlock ''p2'' ''paragraph'' ''two'',
         textBlock ''p3'' ''paragraph'' ''three''],
        [textBlock ''p1'' ''paragraph'' ''one'', textBlock ''p3'' ''paragraph'' ''three'']]
       [textBlock ''p3'' ''paragraph'' ''three'']"

text \<open>A group with two children, then a paragraph and a spacer.\<close>

definition grouped :: "string docState" where
  "grouped =
     document []
       [Block ''g'' ''group'' Map.empty
          [textBlock ''g1'' ''paragraph'' ''in'', Block ''g2'' ''image'' Map.empty []],
        textBlock ''x'' ''paragraph'' ''x'', Block ''z'' ''spacer'' Map.empty []]"

text \<open>A paragraph under the locked template \<open>[heading, paragraph]\<close>.\<close>

definition underTemplate :: "string docState" where
  "underTemplate =
     (document [] [textBlock ''x'' ''paragraph'' ''x''])
       \<lparr> template := Some [TemplateEntry ''heading'' Map.empty None,
                           TemplateEntry ''paragraph'' Map.empty None],
         templateLock := Some ''all'' \<rparr>"

section \<open>Properties of the reconciliation\<close>






section \<open>The example supply is injective\<close>





section \<open>Evaluating the example store\<close>

lemmas example_store =
  exampleEnv_def docEnv_def exampleTypes_def exampleTransform_def exampleUuid_def
  document_def textBlock_def helloWorld_def afterRemoval_def afterFirstRemoval_def
  underTemplate_def grouped_def
  concatText_def textOf_def

lemmas action_creators =
  selectBlock_def replaceBlocks_def setTemplateValidity_def insertDefaultBlock_def
  resetBlocks_def

section \<open>The validity effect\<close>

text \<open>
  C4. Whatever the block list of the reset action and whatever the template: when no
  template is configured, or the template lock is not \<^verbatim>\<open>'all'\<close>, the validity that
  \<^verbatim>\<open>validateBlocksToTemplate\<close> computes is true.
\<close>

theorem C4_unlocked_template_valid:
  "getTemplate e s = None \<or> getTemplateLock e s \<noteq> Some ''all''
   \<Longrightarrow> isBlocksValidToTemplate e blocks s = True"
  by (auto simp: isBlocksValidToTemplate_def split: option.splits)

text \<open>
  The paragraph does not match the template \<open>[heading, paragraph]\<close>; under the lock
  \<^verbatim>\<open>'insert'\<close> the document is valid all the same.
\<close>

theorem C4_unlocked_template_valid_witness:
  "getTemplateLock exampleEnv (underTemplate\<lparr>templateLock := Some ''insert''\<rparr>) = Some ''insert''
   \<and> \<not> blocksMatchTemplate [textBlock ''x'' ''paragraph'' ''x'']
          [TemplateEntry ''heading'' Map.empty None, TemplateEntry ''paragraph'' Map.empty None]
   \<and> isBlocksValidToTemplate exampleEnv [textBlock ''x'' ''paragraph'' ''x'']
        (underTemplate\<lparr>templateLock := Some ''insert''\<rparr>) = True"
proof -
  have lock: "getTemplateLock exampleEnv (underTemplate\<lparr>templateLock := Some ''insert''\<rparr>)
      \<noteq> Some ''all''"
    by (simp add: example_store)
  from C4_unlocked_template_valid [OF disjI2, OF lock]
  have "isBlocksValidToTemplate exampleEnv [textBlock ''x'' ''paragraph'' ''x'']
      (underTemplate\<lparr>templateLock := Some ''insert''\<rparr>) = True" .
  then show ?thesis by (simp add: example_store)
qed

text \<open>
  C8. \<^verbatim>\<open>validateBlocksToTemplate\<close> returns an action if and only if the validity it
  computed differs from the cached flag \<^verbatim>\<open>isValidTemplate( state )\<close>, and the action then
  sets the flag to the computed value. On a state whose cached flag equals the computed
  validity it returns nothing, and the handlers registered for the reset action hand no
  action to the store: the chain ends at depth 0.
\<close>

theorem C8_validity_emitted_iff_changed:
  "((\<exists>a. validateBlocksToTemplate e blocks s = Some a)
      = (isBlocksValidToTemplate e blocks s \<noteq> isValidTemplate e s))
   \<and> (isBlocksValidToTemplate e blocks s \<noteq> isValidTemplate e s \<longrightarrow>
        validateBlocksToTemplate e blocks s
          = Some (SetTemplateValidity (isBlocksValidToTemplate e blocks s)))
   \<and> (isBlocksValidToTemplate e blocks s = isValidTemplate e s \<longrightarrow>
        validateBlocksToTemplate e blocks s = None
        \<and> map (\<lambda>h. h s) (effects e (ResetBlocks blocks)) = [Inr []])"
  by (simp add: validateBlocksToTemplate_def setTemplateValidity_def returned_def)

text \<open>
  Under the locked template the paragraph alone is invalid while the cached flag is true,
  so the flag is set to false; with the flag already false nothing is emitted.
\<close>

theorem C8_validity_emitted_iff_changed_witness:
  "validateBlocksToTemplate exampleEnv [textBlock ''x'' ''paragraph'' ''x''] underTemplate
     = Some (SetTemplateValidity False)
   \<and> validateBlocksToTemplate exampleEnv [textBlock ''x'' ''paragraph'' ''x'']
       (underTemplate\<lparr>isValid := False\<rparr>) = None
   \<and> map (\<lambda>h. h (underTemplate\<lparr>isValid := False\<rparr>))
       (effects exampleEnv (ResetBlocks [textBlock ''x'' ''paragraph'' ''x''])) = [Inr []]"
proof -
  let ?bs = "[textBlock ''x'' ''paragraph'' ''x'']"
  have computed: "isBlocksValidToTemplate exampleEnv ?bs underTemplate = False"
    "isBlocksValidToTemplate exampleEnv ?bs (underTemplate\<lparr>isValid := False\<rparr>) = False"
    by (simp_all add: isBlocksValidToTemplate_def example_store)
  have cached: "isValidTemplate exampleEnv underTemplate = True"
    "isValidTemplate exampleEnv (underTemplate\<lparr>isValid := False\<rparr>) = False"
    by (simp_all add: example_store)
  show ?thesis
    using C8_validity_emitted_iff_changed [of exampleEnv ?bs underTemplate]
      C8_validity_emitted_iff_changed [of exampleEnv ?bs "underTemplate\<lparr>isValid := False\<rparr>"]
    unfolding computed cached by (simp add: returned_def)
qed

section \<open>The selection effect of a removal\<close>

text \<open>
  C2. With a truthy \<^verbatim>\<open>selectPrevious\<close> flag, \<^verbatim>\<open>selectPreviousBlock\<close> computes its target in
  the snapshot before the removal, the last entry of the history: the block before the
  first removed id among its siblings or, when that query gives nothing, the id of the
  removed block's container. It returns a select action for that target with the offset
  \<open>-1\<close> if and only if the target is not the selected block of the current state. With a
  falsy flag it returns nothing.
\<close>

theorem C2_select_previous_block:
  "selectPreviousBlock e False clientIds s = Inr None
   \<and> (past (editor s) \<noteq> [] \<longrightarrow>
        (let previous = s\<lparr>editor := \<lparr>past = [], present = last (past (editor s))\<rparr>\<rparr>;
             removed = (case clientIds of [] \<Rightarrow> Undefined | c # _ \<Rightarrow> ClientId c);
             sibling = getPreviousBlockClientId e previous removed;
             target = (if truthy sibling then sibling
                       else getBlockRootClientId e previous removed)
         in selectPreviousBlock e True clientIds s =
              (if target \<noteq> getSelectedBlockClientId e s
               then Inr (Some (SelectBlock target (Some (- 1))))
               else Inr None)))"
  by (simp add: selectPreviousBlock_def blockClientIdToSelect_def previousState_def
      firstRemovedBlockClientId_def js_or_def selectBlock_def Let_def)

text \<open>
  The document \<open>[P1, P2, P3]\<close>: after the removal of \<open>P2\<close> the effect selects \<open>P1\<close> at
  offset \<open>-1\<close>. After the removal of \<open>P1\<close> from \<open>[P1, P3]\<close>, where it was first, the
  effect selects the container of \<open>P1\<close>, the document.
\<close>

theorem C2_select_previous_block_witness:
  "past (editor afterRemoval) \<noteq> []
   \<and> selectPreviousBlock exampleEnv True [''p2''] afterRemoval
       = Inr (Some (SelectBlock (ClientId ''p1'') (Some (- 1))))
   \<and> selectPreviousBlock exampleEnv False [''p2''] afterRemoval = Inr None
   \<and> past (editor afterFirstRemoval) \<noteq> []
   \<and> selectPreviousBlock exampleEnv True [''p1''] afterFirstRemoval
       = Inr (Some (SelectBlock (ClientId []) (Some (- 1))))"
proof -
  have history: "past (editor afterRemoval) \<noteq> []" "past (editor afterFirstRemoval) \<noteq> []"
    by (simp_all add: example_store)
  show ?thesis
    using history C2_select_previous_block [of exampleEnv "[''p2'']" afterRemoval]
      C2_select_previous_block [of exampleEnv "[''p1'']" afterFirstRemoval]
    by (simp add: example_store Let_def)
qed

section \<open>The default block\<close>

text \<open>
  C3. \<^verbatim>\<open>ensureDefaultBlock\<close> is registered for \<^verbatim>\<open>REMOVE_BLOCKS\<close> (after the selection
  effect) and for \<^verbatim>\<open>REPLACE_BLOCKS\<close>. Run on the state the action left, it returns the
  insert-default-block action exactly when the block count is zero. In the document store,
  once the returned action has gone through the reducer, the document has at least one
  block.
\<close>

theorem C3_default_block_when_empty:
  "effects e (RemoveBlocks clientIds selectPrevious) =
     [\<lambda>s. returnedOrThrown (selectPreviousBlock e selectPrevious clientIds s),
      \<lambda>s. returned (ensureDefaultBlock e s)]
   \<and> effects e (ReplaceBlocks clientIds blocks) = [\<lambda>s. returned (ensureDefaultBlock e s)]
   \<and> (ensureDefaultBlock e' s' = Some InsertDefaultBlock) = (getBlockCount e' s' = 0)
   \<and> (ensureDefaultBlock e' s' = None) = (getBlockCount e' s' \<noteq> 0)
   \<and> 1 \<le> getBlockCount (docEnv types transform uuid)
         (afterEnsureDefaultBlock (docEnv types transform uuid) defaultBlockName newId d)"
  by (simp add: ensureDefaultBlock_def insertDefaultBlock_def afterEnsureDefaultBlock_def
      applyInsertDefaultBlock_def docEnv_def Suc_le_eq)

text \<open>An emptied document gets one block; a document with blocks is left alone.\<close>

theorem C3_default_block_when_empty_witness:
  "ensureDefaultBlock exampleEnv (document [[textBlock ''x'' ''paragraph'' ''x'']] [])
     = Some InsertDefaultBlock
   \<and> getBlockCount exampleEnv
       (afterEnsureDefaultBlock exampleEnv ''paragraph'' ''n''
          (document [[textBlock ''x'' ''paragraph'' ''x'']] [])) = 1
   \<and> ensureDefaultBlock exampleEnv afterRemoval = None
   \<and> afterEnsureDefaultBlock exampleEnv ''paragraph'' ''n'' afterRemoval = afterRemoval"
proof -
  let ?emptied = "document [[textBlock ''x'' ''paragraph'' ''x'']] [] :: string docState"
  have count: "getBlockCount exampleEnv ?emptied = 0" "getBlockCount exampleEnv afterRemoval = 2"
    by (simp_all add: example_store)
  note at_emptied = C3_default_block_when_empty
    [where e = exampleEnv and clientIds = "[]" and selectPrevious = False and blocks = "[]"
       and e' = exampleEnv and s' = ?emptied and types = exampleTypes
       and transform = exampleTransform and uuid = exampleUuid
       and defaultBlockName = "''paragraph''" and newId = "''n''" and d = ?emptied]
  note at_removal = C3_default_block_when_empty
    [where e = exampleEnv and clientIds = "[]" and selectPrevious = False and blocks = "[]"
       and e' = exampleEnv and s' = afterRemoval and types = exampleTypes
       and transform = exampleTransform and uuid = exampleUuid
       and defaultBlockName = "''paragraph''" and newId = "''n''" and d = afterRemoval]
  have returned: "ensureDefaultBlock exampleEnv ?emptied = Some InsertDefaultBlock"
    "ensureDefaultBlock exampleEnv afterRemoval = None"
    using count at_emptied at_removal by simp_all
  show ?thesis
    using returned
    by (simp add: afterEnsureDefaultBlock_def applyInsertDefaultBlock_def example_store)
qed

section \<open>The merge handler\<close>

text \<open>
  C1 as stated asks for the first replacement block to carry exactly the attributes the
  merge function returned. In the example registry the paragraph's merge function returns
  the \<^verbatim>\<open>text\<close> attribute alone; merging \<open>b\<close> into the aligned paragraph \<open>f\<close> keeps
  \<^verbatim>\<open>align\<close>, which the merge result does not have.
\<close>

theorem C1_merged_attributes_counterexample:
  "getBlock exampleEnv helloWorld ''f''
     = Some (Block ''f'' ''paragraph'' [''text'' \<mapsto> ''Hello '', ''align'' \<mapsto> ''left''] [])
   \<and> getBlock exampleEnv helloWorld ''b''
     = Some (Block ''b'' ''paragraph'' [''text'' \<mapsto> ''World''] [])
   \<and> getBlockType exampleEnv ''paragraph''
     = Some \<lparr>typeName = ''paragraph'', merge = Some concatText\<rparr>
   \<and> MERGE_BLOCKS exampleEnv ''f'' ''b'' helloWorld
     = Inr [SelectBlock (ClientId ''f'') (Some (- 1)),
            ReplaceBlocks [''f'', ''b'']
              [Block ''f'' ''paragraph''
                 ([''text'' \<mapsto> ''Hello '', ''align'' \<mapsto> ''left'']
                    ++ [''text'' \<mapsto> ''Hello World'']) []]]
   \<and> ([''text'' \<mapsto> ''Hello '', ''align'' \<mapsto> ''left''] ++ [''text'' \<mapsto> ''Hello World''])
        ''align'' = Some ''left''
   \<and> concatText [''text'' \<mapsto> ''Hello '', ''align'' \<mapsto> ''left''] [''text'' \<mapsto> ''World'']
        ''align'' = None
   \<and> MERGE_BLOCKS exampleEnv ''f'' ''b'' helloWorld
     \<noteq> Inr [SelectBlock (ClientId ''f'') (Some (- 1)),
            ReplaceBlocks [''f'', ''b'']
              [Block ''f'' ''paragraph''
                 (concatText [''text'' \<mapsto> ''Hello '', ''align'' \<mapsto> ''left'']
                    [''text'' \<mapsto> ''World'']) []]]"
proof -
  let ?own = "[''text'' \<mapsto> ''Hello '', ''align'' \<mapsto> ''left''] :: string \<Rightarrow> string option"
  let ?other = "[''text'' \<mapsto> ''World''] :: string \<Rightarrow> string option"
  have blockA: "getBlock exampleEnv helloWorld ''f'' = Some (Block ''f'' ''paragraph'' ?own [])"
    by (simp add: example_store)
  have blockB: "getBlock exampleEnv helloWorld ''b'' = Some (Block ''b'' ''paragraph'' ?other [])"
    by (simp add: example_store)
  have blockType: "getBlockType exampleEnv ''paragraph''
      = Some \<lparr>typeName = ''paragraph'', merge = Some concatText\<rparr>"
    by (simp add: example_store)
  have updated: "concatText ?own ?other = [''text'' \<mapsto> ''Hello World'']"
    by (simp add: concatText_def textOf_def)
  have dispatched: "MERGE_BLOCKS exampleEnv ''f'' ''b'' helloWorld
      = Inr [SelectBlock (ClientId ''f'') (Some (- 1)),
             ReplaceBlocks [''f'', ''b'']
               [Block ''f'' ''paragraph'' (?own ++ [''text'' \<mapsto> ''Hello World'']) []]]"
    by (simp add: MERGE_BLOCKS_def blockA blockB blockType updated mergedBlock_def
        action_creators)
  have kept: "(?own ++ [''text'' \<mapsto> ''Hello World'']) ''align'' = Some ''left''"
    by simp
  have left_out: "concatText ?own ?other ''align'' = None"
    by (simp add: updated)
  have differ: "?own ++ [''text'' \<mapsto> ''Hello World''] \<noteq> concatText ?own ?other"
  proof
    assume "?own ++ [''text'' \<mapsto> ''Hello World''] = concatText ?own ?other"
    then have "(?own ++ [''text'' \<mapsto> ''Hello World'']) ''align''
        = concatText ?own ?other ''align''"
      by (rule arg_cong)
    with kept left_out show False by simp
  qed
  show ?thesis
    using blockA blockB blockType kept left_out differ unfolding dispatched by simp
qed

text \<open>
  C1, amended. When the receiving block \<open>A\<close> has a merge function and the transform of
  \<open>B\<close> (or \<open>B\<close> itself, for equal types) gives at least one candidate, the handler
  dispatches a select action and then a replace action that puts, for the pair
  \<open>[A, B]\<close>, a block equal to \<open>A\<close> but for its attributes, followed by the candidates
  after the first in their order. The attributes are those of \<open>A\<close> overlaid with
  \<open>merge(A.attributes, candidate.attributes)\<close>: the merged value wins key by key, a key
  the merge result leaves out keeps \<open>A\<close>'s value, and the two agree when the merge
  result has every key of \<open>A\<close>. The id of \<open>B\<close> is absent from the replacement exactly
  when \<open>A\<close> and \<open>B\<close> have distinct ids and no remaining candidate carries it.
\<close>

theorem C1_merge_replaces_pair:
  assumes "getBlock e s a = Some blockA"
    and "getBlockType e (name blockA) = Some blockType"
    and "merge blockType = Some mergeFn"
    and "getBlock e s b = Some blockB"
    and "(if name blockA = name blockB then Some [blockB]
          else switchToBlockType e blockB (name blockA)) = Some (candidate # remaining)"
  shows "MERGE_BLOCKS e a b s =
       Inr [SelectBlock (ClientId (clientId blockA)) (Some (- 1)),
            ReplaceBlocks [clientId blockA, clientId blockB]
              (Block (clientId blockA) (name blockA)
                 (attributes blockA ++ mergeFn (attributes blockA) (attributes candidate))
                 (innerBlocks blockA) # remaining)]
     \<and> (\<forall>k. (attributes blockA ++ mergeFn (attributes blockA) (attributes candidate)) k =
            (case mergeFn (attributes blockA) (attributes candidate) k of
               Some v \<Rightarrow> Some v
             | None \<Rightarrow> attributes blockA k))
     \<and> (dom (attributes blockA) \<subseteq> dom (mergeFn (attributes blockA) (attributes candidate))
          \<longrightarrow> attributes blockA ++ mergeFn (attributes blockA) (attributes candidate)
              = mergeFn (attributes blockA) (attributes candidate))
     \<and> (clientId blockB \<notin> set (map clientId
            (Block (clientId blockA) (name blockA)
               (attributes blockA ++ mergeFn (attributes blockA) (attributes candidate))
               (innerBlocks blockA) # remaining)))
        = (clientId blockA \<noteq> clientId blockB \<and> clientId blockB \<notin> set (map clientId remaining))"
proof -
  let ?m = "mergeFn (attributes blockA) (attributes candidate)"
  have dispatched: "MERGE_BLOCKS e a b s =
       Inr [SelectBlock (ClientId (clientId blockA)) (Some (- 1)),
            ReplaceBlocks [clientId blockA, clientId blockB]
              (Block (clientId blockA) (name blockA) (attributes blockA ++ ?m)
                 (innerBlocks blockA) # remaining)]"
    using assms by (simp add: MERGE_BLOCKS_def mergedBlock_def action_creators)
  have overlay: "\<forall>k. (attributes blockA ++ ?m) k =
      (case ?m k of Some v \<Rightarrow> Some v | None \<Rightarrow> attributes blockA k)"
    by (simp add: map_add_def)
  have covered: "dom (attributes blockA) \<subseteq> dom ?m \<longrightarrow> attributes blockA ++ ?m = ?m"
  proof
    assume sub: "dom (attributes blockA) \<subseteq> dom ?m"
    show "attributes blockA ++ ?m = ?m"
    proof
      fix k
      show "(attributes blockA ++ ?m) k = ?m k"
        using sub by (cases "?m k") (auto simp: map_add_def dom_def)
    qed
  qed
  have ids: "(clientId blockB \<notin> set (map clientId
        (Block (clientId blockA) (name blockA) (attributes blockA ++ ?m)
           (innerBlocks blockA) # remaining)))
      = (clientId blockA \<noteq> clientId blockB \<and> clientId blockB \<notin> set (map clientId remaining))"
    by auto
  from dispatched overlay covered ids show ?thesis by blast
qed

text \<open>
  The two paragraphs \<open>Hello \<close> and \<open>World\<close> become the one paragraph \<open>Hello World\<close>
  under the id of the first, and the id of the second is not in the replacement.
\<close>

theorem C1_merge_replaces_pair_witness:
  "MERGE_BLOCKS exampleEnv ''a'' ''b'' helloWorld
     = Inr [SelectBlock (ClientId ''a'') (Some (- 1)),
            ReplaceBlocks [''a'', ''b'']
              [Block ''a'' ''paragraph'' [''text'' \<mapsto> ''Hello World''] []]]
   \<and> concatText [''text'' \<mapsto> ''Hello ''] [''text'' \<mapsto> ''World'']
       = [''text'' \<mapsto> ''Hello World'']
   \<and> ''b'' \<notin> set (map clientId
        [Block ''a'' ''paragraph'' [''text'' \<mapsto> ''Hello World''] [] :: string block])"
proof -
  let ?A = "Block ''a'' ''paragraph'' [''text'' \<mapsto> ''Hello ''] [] :: string block"
  let ?B = "Block ''b'' ''paragraph'' [''text'' \<mapsto> ''World''] [] :: string block"
  let ?T = "\<lparr>typeName = ''paragraph'', merge = Some concatText\<rparr>"
  have blockA: "getBlock exampleEnv helloWorld ''a'' = Some ?A"
    by (simp add: example_store)
  have blockType: "getBlockType exampleEnv (name ?A) = Some ?T"
    by (simp add: example_store)
  have mergeFn: "merge ?T = Some concatText"
    by simp
  have blockB: "getBlock exampleEnv helloWorld ''b'' = Some ?B"
    by (simp add: example_store)
  have candidates: "(if name ?A = name ?B then Some [?B]
      else switchToBlockType exampleEnv ?B (name ?A)) = Some (?B # [])"
    by simp
  have updated: "concatText [''text'' \<mapsto> ''Hello ''] [''text'' \<mapsto> ''World'']
      = [''text'' \<mapsto> ''Hello World'']"
    by (simp add: concatText_def textOf_def)
  from C1_merge_replaces_pair [OF blockA blockType mergeFn blockB candidates]
  show ?thesis
    by (simp add: updated)
qed

text \<open>
  C5 as stated covers every receiving block. The handler looks at the merge function of
  the type of \<open>A\<close> first, and without one it selects \<open>A\<close> before it reads \<open>B\<close>:
  merging the spacer \<open>e\<close> into the image \<open>c\<close>, where the types differ and the spacer
  has no transform to an image, dispatches a select action.
\<close>

theorem C5_not_mergeable_counterexample:
  "getBlock exampleEnv helloWorld ''c'' = Some (Block ''c'' ''image'' Map.empty [])
   \<and> getBlock exampleEnv helloWorld ''e'' = Some (Block ''e'' ''spacer'' Map.empty [])
   \<and> ''spacer'' \<noteq> ''image''
   \<and> switchToBlockType exampleEnv (Block ''e'' ''spacer'' Map.empty []) ''image'' = None
   \<and> getBlockType exampleEnv ''image'' = Some \<lparr>typeName = ''image'', merge = None\<rparr>
   \<and> MERGE_BLOCKS exampleEnv ''c'' ''e'' helloWorld = Inr [SelectBlock (ClientId ''c'') None]
   \<and> MERGE_BLOCKS exampleEnv ''c'' ''e'' helloWorld \<noteq> Inr []"
  by (simp add: MERGE_BLOCKS_def action_creators example_store)

text \<open>
  C5, amended. When the type of the receiving block \<open>A\<close> has a merge function, the type
  of \<open>B\<close> differs from the type of \<open>A\<close>, and the transform of \<open>B\<close> to the type of
  \<open>A\<close> gives no candidate, \<^verbatim>\<open>null\<close> or the empty list, the handler dispatches no action:
  the store sees neither a selection nor a replacement.
\<close>

theorem C5_no_candidate_no_dispatch:
  assumes "getBlock e s a = Some blockA"
    and "getBlockType e (name blockA) = Some blockType"
    and "merge blockType = Some mergeFn"
    and "getBlock e s b = Some blockB"
    and "name blockB \<noteq> name blockA"
    and "switchToBlockType e blockB (name blockA) = None
         \<or> switchToBlockType e blockB (name blockA) = Some []"
  shows "MERGE_BLOCKS e a b s = Inr []"
  using assms by (auto simp add: MERGE_BLOCKS_def)

text \<open>
  An image has no transform to a paragraph (\<^verbatim>\<open>null\<close>) and a spacer transforms to the
  empty list; merging either into the paragraph \<open>a\<close> dispatches nothing.
\<close>

theorem C5_no_candidate_no_dispatch_witness:
  "switchToBlockType exampleEnv (Block ''c'' ''image'' Map.empty []) ''paragraph'' = None
   \<and> MERGE_BLOCKS exampleEnv ''a'' ''c'' helloWorld = Inr []
   \<and> switchToBlockType exampleEnv (Block ''e'' ''spacer'' Map.empty []) ''paragraph'' = Some []
   \<and> MERGE_BLOCKS exampleEnv ''a'' ''e'' helloWorld = Inr []"
proof -
  let ?A = "Block ''a'' ''paragraph'' [''text'' \<mapsto> ''Hello ''] [] :: string block"
  let ?C = "Block ''c'' ''image'' Map.empty [] :: string block"
  let ?E = "Block ''e'' ''spacer'' Map.empty [] :: string block"
  let ?T = "\<lparr>typeName = ''paragraph'', merge = Some concatText\<rparr>"
  have blockA: "getBlock exampleEnv helloWorld ''a'' = Some ?A"
    by (simp add: example_store)
  have blockType: "getBlockType exampleEnv (name ?A) = Some ?T"
    by (simp add: example_store)
  have mergeFn: "merge ?T = Some concatText"
    by simp
  have blockC: "getBlock exampleEnv helloWorld ''c'' = Some ?C"
    by (simp add: example_store)
  have blockE: "getBlock exampleEnv helloWorld ''e'' = Some ?E"
    by (simp add: example_store)
  have namesC: "name ?C \<noteq> name ?A" and namesE: "name ?E \<noteq> name ?A"
    by simp_all
  have noneC: "switchToBlockType exampleEnv ?C (name ?A) = None"
    by (simp add: example_store)
  have emptyE: "switchToBlockType exampleEnv ?E (name ?A) = Some []"
    by (simp add: example_store)
  from C5_no_candidate_no_dispatch [OF blockA blockType mergeFn blockC namesC disjI1, OF noneC]
    C5_no_candidate_no_dispatch [OF blockA blockType mergeFn blockE namesE disjI2, OF emptyE]
    noneC emptyE
  show ?thesis by simp
qed

text \<open>
  C6. When the type of the receiving block \<open>A\<close> has no merge function, the handler
  dispatches exactly one action, the selection of \<open>A\<close>, whatever the second id is: no
  replace action is dispatched.
\<close>

theorem C6_not_mergeable_selects_only:
  assumes "getBlock e s a = Some blockA"
    and "getBlockType e (name blockA) = Some blockType"
    and "merge blockType = None"
  shows "MERGE_BLOCKS e a b s = Inr [SelectBlock (ClientId (clientId blockA)) None]
     \<and> MERGE_BLOCKS e a b s = MERGE_BLOCKS e a b' s
     \<and> (\<forall>acts clientIds blocks.
          MERGE_BLOCKS e a b s = Inr acts \<longrightarrow> ReplaceBlocks clientIds blocks \<notin> set acts)"
  using assms by (simp add: MERGE_BLOCKS_def selectBlock_def)

text \<open>Merging into the image \<open>c\<close> selects \<open>c\<close>, with a second id that exists or not.\<close>

theorem C6_not_mergeable_selects_only_witness:
  "MERGE_BLOCKS exampleEnv ''c'' ''a'' helloWorld = Inr [SelectBlock (ClientId ''c'') None]
   \<and> MERGE_BLOCKS exampleEnv ''c'' ''missing'' helloWorld
       = Inr [SelectBlock (ClientId ''c'') None]"
proof -
  let ?C = "Block ''c'' ''image'' Map.empty [] :: string block"
  let ?T = "\<lparr>typeName = ''image'', merge = None\<rparr> :: string blockType"
  have blockA: "getBlock exampleEnv helloWorld ''c'' = Some ?C"
    by (simp add: example_store)
  have blockType: "getBlockType exampleEnv (name ?C) = Some ?T"
    by (simp add: example_store)
  have mergeFn: "merge ?T = None"
    by simp
  from C6_not_mergeable_selects_only [OF blockA blockType mergeFn, of "''a''" "''missing''"]
  show ?thesis by auto
qed

text \<open>
  C7. When the type of \<open>A\<close> has a merge function and the second id resolves to no block,
  the handler throws on reading the name of the missing block, before any dispatch: the
  merge fails with a \<^verbatim>\<open>TypeError\<close>, and the store sees neither a selection nor a
  replacement.
\<close>

theorem C7_missing_second_block_throws:
  assumes "getBlock e s a = Some blockA"
    and "getBlockType e (name blockA) = Some blockType"
    and "merge blockType = Some mergeFn"
    and "getBlock e s b = None"
  shows "MERGE_BLOCKS e a b s = Inl TypeError"
  using assms by (simp add: MERGE_BLOCKS_def)

theorem C7_missing_second_block_throws_witness:
  "getBlock exampleEnv helloWorld ''missing'' = None
   \<and> MERGE_BLOCKS exampleEnv ''a'' ''missing'' helloWorld = Inl TypeError"
proof -
  let ?A = "Block ''a'' ''paragraph'' [''text'' \<mapsto> ''Hello ''] [] :: string block"
  let ?T = "\<lparr>typeName = ''paragraph'', merge = Some concatText\<rparr>"
  have blockA: "getBlock exampleEnv helloWorld ''a'' = Some ?A"
    by (simp add: example_store)
  have blockType: "getBlockType exampleEnv (name ?A) = Some ?T"
    by (simp add: example_store)
  have mergeFn: "merge ?T = Some concatText"
    by simp
  have blockB: "getBlock exampleEnv helloWorld ''missing'' = None"
    by (simp add: example_store)
  from C7_missing_second_block_throws [OF blockA blockType mergeFn blockB] blockB
  show ?thesis by simp
qed

text \<open>
  C10. The select action of the path without a merge function is made without the
  position argument; the select action of the merging path is made with the position
  \<open>-1\<close>. Both select \<open>A\<close>, and the two actions differ.
\<close>

theorem C10_select_positions_differ:
  assumes "getBlock e s a = Some blockA"
    and "getBlockType e (name blockA) = Some blockType"
  shows "(merge blockType = None \<longrightarrow>
          MERGE_BLOCKS e a b s = Inr [SelectBlock (ClientId (clientId blockA)) None])
     \<and> (merge blockType = Some mergeFn \<and> getBlock e s b = Some blockB
          \<and> (if name blockA = name blockB then Some [blockB]
              else switchToBlockType e blockB (name blockA)) = Some (candidate # remaining)
        \<longrightarrow> (\<exists>replace. MERGE_BLOCKS e a b s
               = Inr [SelectBlock (ClientId (clientId blockA)) (Some (- 1)), replace]))
     \<and> SelectBlock (ClientId (clientId blockA)) None
        \<noteq> (SelectBlock (ClientId (clientId blockA)) (Some (- 1)) :: 'v action)"
  using assms by (simp add: MERGE_BLOCKS_def selectBlock_def)

text \<open>
  Merging into the image \<open>c\<close> selects it without a position; merging the quote \<open>d\<close> into
  the paragraph \<open>a\<close> selects \<open>a\<close> at \<open>-1\<close> and keeps the quote's second paragraph.
\<close>

theorem C10_select_positions_differ_witness:
  "MERGE_BLOCKS exampleEnv ''c'' ''a'' helloWorld = Inr [SelectBlock (ClientId ''c'') None]
   \<and> MERGE_BLOCKS exampleEnv ''a'' ''d'' helloWorld
       = Inr [SelectBlock (ClientId ''a'') (Some (- 1)),
              ReplaceBlocks [''a'', ''d'']
                [Block ''a'' ''paragraph'' [''text'' \<mapsto> ''Hello said''] [],
                 Block ''q2'' ''paragraph'' [''text'' \<mapsto> ''cite''] []]]"
proof -
  let ?A = "Block ''a'' ''paragraph'' [''text'' \<mapsto> ''Hello ''] [] :: string block"
  let ?C = "Block ''c'' ''image'' Map.empty [] :: string block"
  have blockC: "getBlock exampleEnv helloWorld ''c'' = Some ?C"
    by (simp add: example_store)
  have typeC: "getBlockType exampleEnv (name ?C) = Some \<lparr>typeName = ''image'', merge = None\<rparr>"
    by (simp add: example_store)
  have blockA: "getBlock exampleEnv helloWorld ''a'' = Some ?A"
    by (simp add: example_store)
  have typeA: "getBlockType exampleEnv (name ?A)
      = Some \<lparr>typeName = ''paragraph'', merge = Some concatText\<rparr>"
    by (simp add: example_store)
  have merging: "MERGE_BLOCKS exampleEnv ''a'' ''d'' helloWorld
      = Inr [SelectBlock (ClientId ''a'') (Some (- 1)),
             ReplaceBlocks [''a'', ''d'']
               [Block ''a'' ''paragraph'' [''text'' \<mapsto> ''Hello said''] [],
                Block ''q2'' ''paragraph'' [''text'' \<mapsto> ''cite''] []]]"
    by (simp add: MERGE_BLOCKS_def mergedBlock_def action_creators example_store)
  from C10_select_positions_differ [OF blockC typeC, of "''a''"] merging
  show ?thesis by simp
qed

section \<open>The template synchronisation\<close>



end
